theory Spec2Isabelle
  imports Complex_Main
begin

section \<open>Values, objects and the heap\<close>

text \<open>
  The program is JavaScript: its records are objects whose properties are assigned by
  name, an object is held by reference, and a callback receives whatever values it is
  passed. A value is therefore one of the shapes below; \<open>Ref a\<close> is a reference to the
  object at address \<open>a\<close> of the heap. An object maps property names to values and
  reads \<open>Undefined\<close> where it has no such property. Numbers are idealised as reals.
\<close>

type_synonym addr = nat

datatype jsval =
    Undefined
  | Null
  | Text string
  | Number real
  | Ref addr
  | Array "jsval list"

type_synonym obj = "string \<Rightarrow> jsval"

type_synonym heap = "addr \<Rightarrow> obj"

definition emptyObj :: obj where
  "emptyObj = (\<lambda>name. Undefined)"

section \<open>The record parser\<close>

definition POSTALCODE_COLUMNS :: "string list" where
  "POSTALCODE_COLUMNS =
     [''countryCode'', ''postalCode'', ''placeName'', ''adminName1'', ''adminCode1'',
      ''adminName2'', ''adminCode2'', ''adminName3'', ''adminCode3'', ''latitude'',
      ''longitude'', ''accuracy'']"

text \<open>
  \<open>line.split('\t')\<close>: the fields between the separators, from left to right; \<open>w\<close> is
  the field being read. A string without a separator is one field, the empty string too.
\<close>

fun split_from :: "char \<Rightarrow> string \<Rightarrow> string \<Rightarrow> string list" where
  "split_from sep w [] = [w]"
| "split_from sep w (c # cs) =
     (if c = sep then w # split_from sep [] cs else split_from sep (w @ [c]) cs)"

definition split_tab :: "string \<Rightarrow> string list" where
  "split_tab line = split_from (CHR 0x09) [] line"

text \<open>
  \<open>line[i] || null\<close>: reading past the end of the array gives undefined, and both
  undefined and the empty string are falsy, so either becomes \<open>Null\<close>.
\<close>

definition column :: "string list \<Rightarrow> nat \<Rightarrow> jsval" where
  "column line i = (if i < length line \<and> line ! i \<noteq> [] then Text (line ! i) else Null)"

text \<open>The body of the \<open>each\<close> callback: the loop over the column names fills a new object.\<close>

definition parseLine :: "string \<Rightarrow> obj" where
  "parseLine l =
     (let line = split_tab l; lenI = length POSTALCODE_COLUMNS
      in fold (\<lambda>i lineObj. lineObj(POSTALCODE_COLUMNS ! i := column line i)) [0..<lenI] emptyObj)"

text \<open>\<open>data\<close> after the last line: one object per line, pushed in the order of the lines.\<close>

definition parseLines :: "string list \<Rightarrow> obj list" where
  "parseLines ls = map parseLine ls"

section \<open>The distance function\<close>

text \<open>
  The coordinates reach \<open>_distanceFunc\<close> as property values: numbers from a caller,
  text from the parser or from the web route. Every use of them there is arithmetic,
  which converts a value to a number first; the model converts them where it reads
  them. A number converts to itself. The conversion of any other value is the
  language's and not the repository's: it is the parameter \<open>conv\<close>.
  (An Isabelle name cannot begin with an underscore: \<open>priv_f\<close> stands for the
  source's \<open>_f\<close>.)
\<close>

definition toNumber :: "(jsval \<Rightarrow> real) \<Rightarrow> jsval \<Rightarrow> real" where
  "toNumber conv v = (case v of Number r \<Rightarrow> r | _ \<Rightarrow> conv v)"

definition toRadians :: "real \<Rightarrow> real" where
  "toRadians num = num * pi / 180"

text \<open>\<open>Math.atan2(y, x)\<close>: the angle of the point \<open>(x, y)\<close>, in \<open>(-\<pi>, \<pi>]\<close>.\<close>

definition atan2 :: "real \<Rightarrow> real \<Rightarrow> real" where
  "atan2 y x =
     (if 0 < x then arctan (y / x)
      else if x < 0 then (if 0 \<le> y then arctan (y / x) + pi else arctan (y / x) - pi)
      else if 0 < y then pi / 2
      else if y < 0 then - (pi / 2)
      else 0)"

definition priv_distanceFunc :: "(jsval \<Rightarrow> real) \<Rightarrow> obj \<Rightarrow> obj \<Rightarrow> real" where
  "priv_distanceFunc conv x y =
     (let lat1 = toNumber conv (x ''latitude'');
          lon1 = toNumber conv (x ''longitude'');
          lat2 = toNumber conv (y ''latitude'');
          lon2 = toNumber conv (y ''longitude'');
          R = 6371;
          phi1 = toRadians lat1;
          phi2 = toRadians lat2;
          dphi = toRadians (lat2 - lat1);
          dlambda = toRadians (lon2 - lon1);
          a = sin (dphi / 2) * sin (dphi / 2) +
              cos phi1 * cos phi2 *
              sin (dlambda / 2) * sin (dlambda / 2);
          c = 2 * atan2 (sqrt a) (sqrt (1 - a))
      in R * c)"

text \<open>
  For comparison with \<open>_distanceFunc\<close>: the great-circle distance of two points by the
  haversine formula, in kilometres on a sphere of radius 6371 km, as the spec names the
  metric. The coordinates are in degrees.
\<close>

definition hav :: "real \<Rightarrow> real" where
  "hav \<theta> = (sin (\<theta> / 2))\<^sup>2"

definition haversine_km :: "real \<Rightarrow> real \<Rightarrow> real \<Rightarrow> real \<Rightarrow> real" where
  "haversine_km lat1 lon1 lat2 lon2 =
     2 * 6371 * arcsin (sqrt (hav (toRadians (lat2 - lat1)) +
       cos (toRadians lat1) * cos (toRadians lat2) * hav (toRadians (lon2 - lon1))))"

section \<open>The lookup service\<close>

text \<open>
  The geocoder is one object with the field \<open>_kdTree\<close>, \<open>null\<close> until the index is
  built. The records live in the heap; \<open>nextAddr\<close> is the first address not yet
  given to an object. The tree comes from the package \<open>kdt\<close>, so the lookup functions
  take its query \<open>nearest\<close> as a parameter: called with the tree, the heap as it is at
  the call, the point and the count, it returns pairs of a record (a reference) and a
  distance.
\<close>

record 't geocoder =
  heap :: heap
  nextAddr :: addr
  priv_kdTree :: "'t option"

type_synonym 't nearest_fn = "'t \<Rightarrow> heap \<Rightarrow> obj \<Rightarrow> nat \<Rightarrow> (addr \<times> real) list"

text \<open>The first argument of \<open>lookUp\<close>: one point, or an array of points.\<close>

datatype points_arg = One obj | Many "obj list"

text \<open>
  \<open>result.forEach\<close> in \<open>_lookUp\<close>: each pair's record gets its \<open>distance\<close> property
  assigned, in the heap, and is pushed to \<open>zipCodeList\<close>.
\<close>

fun annotate :: "(addr \<times> real) list \<Rightarrow> heap \<Rightarrow> addr list \<Rightarrow> heap \<times> addr list" where
  "annotate [] h zipCodeList = (h, zipCodeList)"
| "annotate ((a, d) # result) h zipCodeList =
     annotate result (h(a := (h a)(''distance'' := Number d))) (zipCodeList @ [a])"

text \<open>
  \<open>functions[i]\<close>: the task of one point. The guard \<open>result && result[0] && result[0][0]\<close>
  holds exactly when the result has a first pair, a reference being truthy. The task
  always passes \<open>null\<close> as the error to \<open>innerCallback\<close>.
\<close>

definition lookUpTask ::
  "'t nearest_fn \<Rightarrow> 't \<Rightarrow> nat \<Rightarrow> obj \<Rightarrow> heap \<Rightarrow> (jsval \<times> jsval) \<times> heap" where
  "lookUpTask nearest t maxResults point h =
     (let result = nearest t h point maxResults;
          (h', zipCodeList) = (if result \<noteq> [] then annotate result h [] else (h, []))
      in ((Null, Array (map Ref zipCodeList)), h'))"

text \<open>
  \<open>async.series\<close>, as the package async documents it: the tasks run one after the
  other, each result is collected in order, and the first task that passes an error
  ends the run with that error. The model runs a batch to its end; no other call
  comes between two of its tasks.
\<close>

fun series ::
  "(heap \<Rightarrow> (jsval \<times> jsval) \<times> heap) list \<Rightarrow> heap \<Rightarrow> (jsval \<times> jsval list) \<times> heap" where
  "series [] h = ((Null, []), h)"
| "series (f # fs) h =
     (case f h of ((err, r), h1) \<Rightarrow>
        if err = Null \<or> err = Undefined
        then (case series fs h1 of ((err', rs), h2) \<Rightarrow> ((err', r # rs), h2))
        else ((err, [r]), h1))"

definition priv_lookUp ::
  "'t nearest_fn \<Rightarrow> 't geocoder \<Rightarrow> points_arg \<Rightarrow> nat \<Rightarrow> (jsval \<times> jsval) \<times> 't geocoder" where
  "priv_lookUp nearest g points maxResults =
     (case priv_kdTree g of
        None \<Rightarrow> ((Text ''You must first call init before calling lookup'', Undefined), g)
      | Some t \<Rightarrow>
          (let ps = (case points of Many ps \<Rightarrow> ps | One p \<Rightarrow> [p]);
               functions = map (lookUpTask nearest t maxResults) ps;
               ((err, results), h) = series functions (heap g)
           in ((Null, Array results), g\<lparr>heap := h\<rparr>)))"

text \<open>
  \<open>lookUp\<close>: \<open>arg2\<close> is \<open>None\<close> for the call with two arguments, where \<open>maxResults\<close> is 1.
  The pair returned first is what the caller's callback is called with; \<open>callback(err)\<close>
  leaves its second argument \<open>Undefined\<close>.
\<close>

definition lookUp ::
  "'t nearest_fn \<Rightarrow> 't geocoder \<Rightarrow> points_arg \<Rightarrow> nat option \<Rightarrow> (jsval \<times> jsval) \<times> 't geocoder" where
  "lookUp nearest g points arg2 =
     (let maxResults = (case arg2 of None \<Rightarrow> 1 | Some n \<Rightarrow> n);
          ((err, results), g') = priv_lookUp nearest g points maxResults
      in (case results of
            Array (r # rs) \<Rightarrow> ((err, r), g')
          | _ \<Rightarrow> ((err, Undefined), g')))"

text \<open>Any number of calls, one after the other; what the callbacks receive is dropped.\<close>

fun lookUps ::
  "'t nearest_fn \<Rightarrow> 't geocoder \<Rightarrow> (points_arg \<times> nat option) list \<Rightarrow> 't geocoder" where
  "lookUps nearest g [] = g"
| "lookUps nearest g ((points, arg2) # calls) =
     lookUps nearest (snd (lookUp nearest g points arg2)) calls"

section \<open>The spatial index\<close>

text \<open>
  Modelled from the spec: the k-d tree of the package \<open>kdt\<close> (\<open>createKdTree\<close> and its
  method \<open>nearest\<close>), which the repository imports and does not contain. The spec gives
  the query's result whatever the shape of the tree: the K records whose distance to
  the point, by the metric the tree was built with, is smallest, in ascending order of
  distance, ties in insertion order; all records when K exceeds their number; none for
  an empty tree. The index is therefore modelled by what that result depends on: the
  records in insertion order, the metric and the dimensions. An array holds its
  objects by reference, so the tree holds the records of \<open>data\<close> themselves.
\<close>

record kdtree =
  tree_points :: "addr list"
  tree_metric :: "obj \<Rightarrow> obj \<Rightarrow> real"
  tree_dimensions :: "string list"

definition createKdTree :: "addr list \<Rightarrow> (obj \<Rightarrow> obj \<Rightarrow> real) \<Rightarrow> string list \<Rightarrow> kdtree" where
  "createKdTree data m dims = \<lparr>tree_points = data, tree_metric = m, tree_dimensions = dims\<rparr>"

definition nearest :: "kdtree nearest_fn" where
  "nearest t h point maxNodes =
     take maxNodes (sort_key snd (map (\<lambda>a. (a, tree_metric t point (h a))) (tree_points t)))"

section \<open>Building the index\<close>

text \<open>The objects \<open>os\<close> placed in the heap from address \<open>n\<close> on.\<close>

definition alloc :: "obj list \<Rightarrow> heap \<Rightarrow> addr \<Rightarrow> heap" where
  "alloc os h n = (\<lambda>a. if n \<le> a \<and> a < n + length os then os ! (a - n) else h a)"

text \<open>
  \<open>_parseGeoNamesPostalCodesCsv\<close> on a file with the lines \<open>ls\<close>: the records are
  created, then the tree is built from them with \<open>_distanceFunc\<close> as its metric.
\<close>

definition priv_parseGeoNamesPostalCodesCsv ::
  "(jsval \<Rightarrow> real) \<Rightarrow> string list \<Rightarrow> kdtree geocoder \<Rightarrow> kdtree geocoder" where
  "priv_parseGeoNamesPostalCodesCsv conv ls g =
     (let data = parseLines ls;
          n = nextAddr g;
          dimensions = [''latitude'', ''longitude'']
      in g\<lparr>heap := alloc data (heap g) n,
            nextAddr := n + length data,
            priv_kdTree := Some (createKdTree [n..<n + length data] (priv_distanceFunc conv) dimensions)\<rparr>)"

text \<open>The geocoder as the module creates it.\<close>

definition geocoder :: "kdtree geocoder" where
  "geocoder = \<lparr>heap = (\<lambda>a. emptyObj), nextAddr = 0, priv_kdTree = None\<rparr>"

section \<open>Example data\<close>

text \<open>
  The examples need a conversion for the text of their records. \<open>readDigits\<close> reads a
  text of decimal digits as the number it denotes and \<open>null\<close> as 0, as the language
  does; the examples hand it nothing else.
\<close>

definition readDigits :: "jsval \<Rightarrow> real" where
  "readDigits v =
     (case v of Text s \<Rightarrow> real (foldl (\<lambda>n c. 10 * n + (of_char c - 48)) 0 s) | _ \<Rightarrow> 0)"

text \<open>The object literal \<open>{latitude: lat, longitude: lon}\<close>.\<close>

definition point :: "real \<Rightarrow> real \<Rightarrow> obj" where
  "point lat lon = emptyObj(''latitude'' := Number lat, ''longitude'' := Number lon)"

text \<open>
  Three lines in the format of the data set. \<open>lineA\<close> has all twelve fields and lies at
  latitude 0, longitude 0; \<open>lineB\<close> lies at latitude 0, longitude 180 and stops after
  the longitude; \<open>lineC\<close> stops after the postal code.
\<close>

definition lineA :: string where
  "lineA = ''AA'' @ [CHR 0x09] @ ''1000'' @ [CHR 0x09] @ ''Alpha'' @ [CHR 0x09] @
     ''North'' @ [CHR 0x09] @ ''N'' @ [CHR 0x09] @ ''Shire'' @ [CHR 0x09] @ ''01'' @ [CHR 0x09] @
     ''Town'' @ [CHR 0x09] @ ''02'' @ [CHR 0x09] @ ''0'' @ [CHR 0x09] @ ''0'' @ [CHR 0x09] @ ''4''"

definition lineB :: string where
  "lineB = ''BB'' @ [CHR 0x09] @ ''2000'' @ [CHR 0x09] @ ''Beta'' @
     [CHR 0x09, CHR 0x09, CHR 0x09, CHR 0x09, CHR 0x09, CHR 0x09, CHR 0x09] @
     ''0'' @ [CHR 0x09] @ ''180''"


text \<open>The geocoder after the index is built from a file with one line, and with two.\<close>

definition geocoderA :: "kdtree geocoder" where
  "geocoderA = priv_parseGeoNamesPostalCodesCsv readDigits [lineA] geocoder"

definition geocoderAB :: "kdtree geocoder" where
  "geocoderAB = priv_parseGeoNamesPostalCodesCsv readDigits [lineA, lineB] geocoder"

section \<open>The parser: one record per line, absent columns are null\<close>

lemma parseLine_columns:
  "parseLine l =
     (let line = split_tab l in
      emptyObj(''countryCode'' := column line 0, ''postalCode'' := column line 1,
        ''placeName'' := column line 2, ''adminName1'' := column line 3,
        ''adminCode1'' := column line 4, ''adminName2'' := column line 5,
        ''adminCode2'' := column line 6, ''adminName3'' := column line 7,
        ''adminCode3'' := column line 8, ''latitude'' := column line 9,
        ''longitude'' := column line 10, ''accuracy'' := column line 11))"
  by (simp add: parseLine_def POSTALCODE_COLUMNS_def upt_rec Let_def eval_nat_numeral)




lemma split_lineA:
  "split_tab lineA =
     [''AA'', ''1000'', ''Alpha'', ''North'', ''N'', ''Shire'', ''01'', ''Town'', ''02'', ''0'', ''0'', ''4'']"
  by (simp add: split_tab_def lineA_def)

lemma split_lineB:
  "split_tab lineB = [''BB'', ''2000'', ''Beta'', [], [], [], [], [], [], ''0'', ''180'']"
  by (simp add: split_tab_def lineB_def)




section \<open>The distance function is the haversine distance\<close>

text \<open>
  Over the reals the argument of the square roots in \<open>_distanceFunc\<close> lies between 0
  and 1 for all coordinates, in range or not, and \<open>2 * atan2(\<surd>a, \<surd>(1 - a))\<close>
  is \<open>2 * arcsin(\<surd>a)\<close>: the function computes the haversine distance.
\<close>

lemma hav_cos: "hav \<theta> = (1 - cos \<theta>) / 2"
  using cos_double_sin [of "\<theta> / 2"] by (simp add: hav_def)

lemma convex_bound:
  fixes p q k :: real
  assumes "\<bar>p\<bar> \<le> 1" "\<bar>q\<bar> \<le> 1" "\<bar>k\<bar> \<le> 1"
  shows "\<bar>(1 + k) / 2 * p + (1 - k) / 2 * q\<bar> \<le> 1"
proof -
  have u: "0 \<le> (1 + k) / 2" and v: "0 \<le> (1 - k) / 2" using assms(3) by auto
  have "(1 + k) / 2 * p \<le> (1 + k) / 2 * 1" using u assms(1) by (intro mult_left_mono) auto
  moreover have "(1 - k) / 2 * q \<le> (1 - k) / 2 * 1" using v assms(2) by (intro mult_left_mono) auto
  moreover have "(1 + k) / 2 * (- 1) \<le> (1 + k) / 2 * p" using u assms(1) by (intro mult_left_mono) auto
  moreover have "(1 - k) / 2 * (- 1) \<le> (1 - k) / 2 * q" using v assms(2) by (intro mult_left_mono) auto
  ultimately show ?thesis by (simp add: abs_le_iff) argo
qed

lemma haversine_arg_range:
  fixes p1 p2 dl :: real
  defines "a \<equiv> hav (p2 - p1) + cos p1 * cos p2 * hav dl"
  shows "0 \<le> a \<and> a \<le> 1"
proof -
  let ?s = "sin p1 * sin p2" and ?c = "cos p1 * cos p2" and ?k = "cos dl"
  have a: "a = (1 - (?s + ?c * ?k)) / 2"
    by (simp add: a_def hav_cos cos_diff field_simps)
  have "?s + ?c * ?k = (1 + ?k) / 2 * (?s + ?c) + (1 - ?k) / 2 * (?s - ?c)"
    by (simp add: field_simps)
  moreover have "?s + ?c = cos (p1 - p2)" by (simp add: cos_diff)
  moreover have "?s - ?c = - cos (p1 + p2)" by (simp add: cos_add)
  ultimately have "?s + ?c * ?k = (1 + ?k) / 2 * cos (p1 - p2) + (1 - ?k) / 2 * (- cos (p1 + p2))"
    by simp
  moreover have "\<bar>(1 + ?k) / 2 * cos (p1 - p2) + (1 - ?k) / 2 * (- cos (p1 + p2))\<bar> \<le> 1"
    by (rule convex_bound) (simp_all add: abs_le_iff)
  ultimately have "\<bar>?s + ?c * ?k\<bar> \<le> 1" by simp
  with a show ?thesis by (simp add: abs_le_iff)
qed

lemma atan2_arcsin:
  assumes "0 \<le> a" "a \<le> 1"
  shows "atan2 (sqrt a) (sqrt (1 - a)) = arcsin (sqrt a)"
proof (cases "a = 1")
  case True
  then show ?thesis by (simp add: atan2_def)
next
  case False
  with assms have lt: "a < 1" by simp
  then have pos: "0 < sqrt (1 - a)" by simp
  have "sqrt a < 1" using lt assms(1) by (simp add: real_sqrt_lt_1_iff)
  moreover have "- 1 < sqrt a" using assms(1) by (smt (verit) real_sqrt_ge_zero)
  ultimately have "arcsin (sqrt a) = arctan (sqrt a / sqrt (1 - (sqrt a)\<^sup>2))"
    by (intro arcsin_arctan)
  also have "(sqrt a)\<^sup>2 = a" using assms(1) by simp
  finally show ?thesis using pos by (simp add: atan2_def)
qed

lemma toRadians_diff: "toRadians (x - y) = toRadians x - toRadians y"
  by (simp add: toRadians_def diff_divide_distrib algebra_simps)

lemma distanceFunc_haversine:
  "priv_distanceFunc conv x y =
     haversine_km (toNumber conv (x ''latitude'')) (toNumber conv (x ''longitude''))
       (toNumber conv (y ''latitude'')) (toNumber conv (y ''longitude''))"
proof -
  let ?lat1 = "toNumber conv (x ''latitude'')" and ?lon1 = "toNumber conv (x ''longitude'')"
  let ?lat2 = "toNumber conv (y ''latitude'')" and ?lon2 = "toNumber conv (y ''longitude'')"
  let ?a = "hav (toRadians ?lat2 - toRadians ?lat1) +
       cos (toRadians ?lat1) * cos (toRadians ?lat2) * hav (toRadians (?lon2 - ?lon1))"
  have r: "0 \<le> ?a \<and> ?a \<le> 1" by (rule haversine_arg_range)
  then have "atan2 (sqrt ?a) (sqrt (1 - ?a)) = arcsin (sqrt ?a)"
    by (intro atan2_arcsin) simp_all
  then show ?thesis
    by (simp add: priv_distanceFunc_def haversine_km_def Let_def hav_def toRadians_diff power2_eq_square
        mult.assoc)
qed

section \<open>The lookup functions, for any tree\<close>

lemma annotate_snd: "snd (annotate rs h zs) = zs @ map fst rs"
  by (induction rs arbitrary: h zs) (simp_all add: split_paired_all)

lemma annotate_frame: "(fst (annotate rs h zs) a)(''distance'' := v) = (h a)(''distance'' := v)"
  by (induction rs arbitrary: h zs) (simp_all add: split_paired_all)

lemma annotate_other: "a \<notin> fst ` set rs \<Longrightarrow> fst (annotate rs h zs) a = h a"
  by (induction rs arbitrary: h zs) auto

lemma annotate_distance:
  "\<forall>(a, d) \<in> set rs. d = f a \<Longrightarrow> a \<in> fst ` set rs \<Longrightarrow>
   fst (annotate rs h zs) a ''distance'' = Number (f a)"
proof (induction rs arbitrary: h zs)
  case Nil
  then show ?case by simp
next
  case (Cons r rs)
  obtain b d where r: "r = (b, d)" by (cases r)
  show ?case
  proof (cases "a \<in> fst ` set rs")
    case True
    with Cons.prems
    have "fst (annotate rs (h(b := (h b)(''distance'' := Number d))) (zs @ [b])) a ''distance'' =
          Number (f a)"
      by (intro Cons.IH) auto
    then show ?thesis by (simp add: r)
  next
    case False
    with Cons.prems r have ab: "a = b" and df: "d = f b" by auto
    from False show ?thesis
      by (simp add: annotate_other ab df r)
  qed
qed

lemma lookUpTask_fst:
  "fst (lookUpTask near t K p h) = (Null, Array (map (Ref \<circ> fst) (near t h p K)))"
  by (simp add: lookUpTask_def Let_def annotate_snd split_beta)

lemma lookUpTask_snd:
  "snd (lookUpTask near t K p h) = fst (annotate (near t h p K) h [])"
  by (simp add: lookUpTask_def Let_def split_beta)

lemma lookUpTask_frame:
  "(snd (lookUpTask near t K p h) a)(''distance'' := v) = (h a)(''distance'' := v)"
  by (simp add: lookUpTask_snd annotate_frame)

lemma series_task_Cons:
  "series (lookUpTask near t K p # fs) h =
     ((fst (fst (series fs (snd (lookUpTask near t K p h)))),
       Array (map (Ref \<circ> fst) (near t h p K)) #
         snd (fst (series fs (snd (lookUpTask near t K p h))))),
      snd (series fs (snd (lookUpTask near t K p h))))"
proof -
  obtain h1 where T:
    "lookUpTask near t K p h = ((Null, Array (map (Ref \<circ> fst) (near t h p K))), h1)"
    using lookUpTask_fst [of near t K p h] by (cases "lookUpTask near t K p h") simp
  show ?thesis by (simp add: T split_beta)
qed

lemma series_tasks_err:
  "fst (fst (series (map (lookUpTask near t K) ps) h)) = Null"
  by (induction ps arbitrary: h) (simp_all add: series_task_Cons del: series.simps(2))

lemma series_tasks_length:
  "length (snd (fst (series (map (lookUpTask near t K) ps) h))) = length ps"
  by (induction ps arbitrary: h) (simp_all add: series_task_Cons del: series.simps(2))

lemma series_tasks_nth:
  "i < length ps \<Longrightarrow>
   snd (fst (series (map (lookUpTask near t K) ps) h)) ! i =
   Array (map (Ref \<circ> fst)
     (near t (snd (series (map (lookUpTask near t K) (take i ps)) h)) (ps ! i) K))"
proof (induction ps arbitrary: h i)
  case Nil
  then show ?case by simp
next
  case (Cons p ps)
  show ?case
  proof (cases i)
    case 0
    then show ?thesis by (simp add: series_task_Cons del: series.simps(2))
  next
    case (Suc j)
    with Cons.prems have "j < length ps" by simp
    from Cons.IH [OF this] show ?thesis
      by (simp add: Suc series_task_Cons del: series.simps(2))
  qed
qed

lemma series_tasks_frame:
  "(snd (series (map (lookUpTask near t K) ps) h) a)(''distance'' := v) =
   (h a)(''distance'' := v)"
  by (induction ps arbitrary: h)
    (simp_all add: series_task_Cons lookUpTask_frame del: series.simps(2))

lemma priv_lookUp_Some:
  "priv_lookUp near (g\<lparr>priv_kdTree := Some t\<rparr>) points K =
     ((Null,
       Array (snd (fst (series (map (lookUpTask near t K)
         (case points of Many ps \<Rightarrow> ps | One p \<Rightarrow> [p])) (heap g))))),
      g\<lparr>priv_kdTree := Some t,
        heap := snd (series (map (lookUpTask near t K)
          (case points of Many ps \<Rightarrow> ps | One p \<Rightarrow> [p])) (heap g))\<rparr>)"
  by (simp add: priv_lookUp_def Let_def split_beta)

lemma priv_lookUp_None:
  "priv_lookUp near (g\<lparr>priv_kdTree := None\<rparr>) points K =
     ((Text ''You must first call init before calling lookup'', Undefined), g\<lparr>priv_kdTree := None\<rparr>)"
  by (simp add: priv_lookUp_def)

text \<open>
  Claim C2. While \<open>_kdTree\<close> is still \<open>null\<close>, a call of \<open>lookUp\<close> - with any points,
  with or without a count - calls the callback with the error
  \<open>'You must first call init before calling lookup'\<close> and with no result, so never
  with data; and it leaves the geocoder and every object as they were. The tree's
  query is never consulted: the outcome is the same for every \<open>near\<close>.
\<close>

theorem C2_not_initialized_error:
  "lookUp near (g\<lparr>priv_kdTree := None\<rparr>) points arg2 =
     ((Text ''You must first call init before calling lookup'', Undefined), g\<lparr>priv_kdTree := None\<rparr>)
   \<and> priv_lookUp near (g\<lparr>priv_kdTree := None\<rparr>) points maxResults =
     ((Text ''You must first call init before calling lookup'', Undefined), g\<lparr>priv_kdTree := None\<rparr>)"
proof
  show "lookUp near (g\<lparr>priv_kdTree := None\<rparr>) points arg2 =
     ((Text ''You must first call init before calling lookup'', Undefined), g\<lparr>priv_kdTree := None\<rparr>)"
    by (simp add: lookUp_def priv_lookUp_None)
next
  show "priv_lookUp near (g\<lparr>priv_kdTree := None\<rparr>) points maxResults =
     ((Text ''You must first call init before calling lookup'', Undefined), g\<lparr>priv_kdTree := None\<rparr>)"
    by (rule priv_lookUp_None)
qed

text \<open>
  Claim C10. On an initialized geocoder, \<open>lookUp\<close> with an empty array of points calls
  the callback with a \<open>null\<close> error and no result value (\<open>Undefined\<close>), not with an
  empty array: \<open>_lookUp\<close> delivers the empty array of results, and the wrapper passes a
  result on only when that array has a first element. Nothing is changed.
\<close>

theorem C10_empty_batch_no_result:
  "lookUp near (g\<lparr>priv_kdTree := Some t\<rparr>) (Many []) arg2 = ((Null, Undefined), g\<lparr>priv_kdTree := Some t\<rparr>)
   \<and> priv_lookUp near (g\<lparr>priv_kdTree := Some t\<rparr>) (Many []) maxResults =
       ((Null, Array []), g\<lparr>priv_kdTree := Some t\<rparr>)"
proof
  show "lookUp near (g\<lparr>priv_kdTree := Some t\<rparr>) (Many []) arg2 = ((Null, Undefined), g\<lparr>priv_kdTree := Some t\<rparr>)"
    by (simp add: lookUp_def priv_lookUp_Some)
next
  show "priv_lookUp near (g\<lparr>priv_kdTree := Some t\<rparr>) (Many []) maxResults =
       ((Null, Array []), g\<lparr>priv_kdTree := Some t\<rparr>)"
    by (simp add: priv_lookUp_Some)
qed

section \<open>The example geocoders\<close>

lemma coords_lineA:
  "parseLine lineA ''latitude'' = Text ''0''" "parseLine lineA ''longitude'' = Text ''0''"
  "parseLine lineA ''distance'' = Undefined"
  by (simp_all add: parseLine_columns split_lineA column_def emptyObj_def)

lemma coords_lineB:
  "parseLine lineB ''latitude'' = Text ''0''" "parseLine lineB ''longitude'' = Text ''180''"
  "parseLine lineB ''distance'' = Undefined"
  by (simp_all add: parseLine_columns split_lineB column_def emptyObj_def)

lemma distanceFunc_examples:
  "priv_distanceFunc readDigits (point 0 0) (parseLine lineA) = 0"
  "priv_distanceFunc readDigits (point 0 0) (parseLine lineB) = 6371 * pi"
  "priv_distanceFunc readDigits (point 0 180) (parseLine lineA) = 6371 * pi"
  "priv_distanceFunc readDigits (point 0 180) (parseLine lineB) = 0"
  by (simp_all add: priv_distanceFunc_def toNumber_def readDigits_def point_def toRadians_def
      atan2_def Let_def coords_lineA coords_lineB)

lemma distanceFunc_distance:
  "priv_distanceFunc conv x (y(''distance'' := v)) = priv_distanceFunc conv x y"
  by (simp add: priv_distanceFunc_def)

lemma geocoderA_simps:
  "priv_kdTree geocoderA = Some (createKdTree [0] (priv_distanceFunc readDigits) [''latitude'', ''longitude''])"
  "heap geocoderA 0 = parseLine lineA"
  by (simp_all add: geocoderA_def priv_parseGeoNamesPostalCodesCsv_def geocoder_def parseLines_def alloc_def Let_def)

lemma geocoderA_tree:
  "geocoderA = geocoderA\<lparr>priv_kdTree := Some (createKdTree [0] (priv_distanceFunc readDigits) [''latitude'', ''longitude''])\<rparr>"
  by (simp add: geocoderA_def priv_parseGeoNamesPostalCodesCsv_def geocoder_def parseLines_def Let_def)

lemma geocoderAB_simps:
  "priv_kdTree geocoderAB = Some (createKdTree [0, 1] (priv_distanceFunc readDigits) [''latitude'', ''longitude''])"
  "heap geocoderAB 0 = parseLine lineA"
  "heap geocoderAB (Suc 0) = parseLine lineB"
  by (simp_all add: geocoderAB_def priv_parseGeoNamesPostalCodesCsv_def geocoder_def parseLines_def alloc_def Let_def upt_rec)


section \<open>No validation of query points\<close>

text \<open>
  Claim C7, as the code has it. \<open>_lookUp\<close> validates nothing: whatever the
  coordinates of the points of a batch, the callback's error is \<open>null\<close>, the results
  are an array with one entry per point, and the entry of every point - valid or not -
  is the sequence of records the tree's query returns for that point, on the heap as
  the lookups of the points before it left it. No point gets an error of its own, and
  no point keeps another from its result.
\<close>

theorem C7_no_point_is_rejected:
  assumes "i < length ps"
  shows "fst (fst (priv_lookUp near (g\<lparr>priv_kdTree := Some t\<rparr>) (Many ps) K)) = Null
     \<and> (\<exists>rs. snd (fst (priv_lookUp near (g\<lparr>priv_kdTree := Some t\<rparr>) (Many ps) K)) = Array rs
          \<and> length rs = length ps
          \<and> rs ! i = Array (map (Ref \<circ> fst)
              (near t (heap (snd (priv_lookUp near (g\<lparr>priv_kdTree := Some t\<rparr>) (Many (take i ps)) K)))
                 (ps ! i) K)))"
  using assms by (simp add: priv_lookUp_Some series_tasks_length series_tasks_nth)

theorem C7_witness:
  "(1::nat) < length [point 1000 0, point 0 0]
   \<and> fst (fst (priv_lookUp nearest geocoderA (Many [point 1000 0, point 0 0]) 1)) = Null
   \<and> (\<exists>rs. snd (fst (priv_lookUp nearest geocoderA (Many [point 1000 0, point 0 0]) 1)) = Array rs
        \<and> length rs = 2 \<and> rs ! 1 = Array [Ref 0])"
proof -
  have h: "(1::nat) < length [point 1000 0, point 0 0]" by simp
  have n: "nearest (createKdTree [0] m dims) h' p (Suc 0) = [(0, m p (h' 0))]" for m dims h' p
    by (simp add: nearest_def createKdTree_def)
  show ?thesis
    using C7_no_point_is_rejected [OF h, where near = nearest and g = geocoderA
        and t = "createKdTree [0] (priv_distanceFunc readDigits) [''latitude'', ''longitude'']"
        and K = 1]
    by (simp add: geocoderA_tree [symmetric] n numeral_2_eq_2)
qed

text \<open>
  Claim C7 as stated fails. The first point of the batch has latitude 1000, outside
  \<open>[-90, 90]\<close>; the error passed to the callback of \<open>_lookUp\<close> and of \<open>lookUp\<close> is
  \<open>null\<close> all the same, and the entry of that point is an ordinary result, the one
  record of the index.
\<close>

theorem C7_counterexample:
  "fst (priv_lookUp nearest geocoderA (Many [point 1000 0, point 0 0]) 1) =
     (Null, Array [Array [Ref 0], Array [Ref 0]])
   \<and> fst (lookUp nearest geocoderA (Many [point 1000 0, point 0 0]) (Some 1)) = (Null, Array [Ref 0])"
  by (simp add: lookUp_def priv_lookUp_def geocoderA_simps lookUpTask_def nearest_def
      createKdTree_def Let_def split_beta)

section \<open>What a query writes\<close>

lemma lookUp_frame:
  "priv_kdTree (snd (lookUp near g points arg2)) = priv_kdTree g
   \<and> nextAddr (snd (lookUp near g points arg2)) = nextAddr g
   \<and> (heap (snd (lookUp near g points arg2)) a)(''distance'' := v) = (heap g a)(''distance'' := v)"
proof (cases "priv_kdTree g")
  case None
  then show ?thesis by (simp add: lookUp_def priv_lookUp_def)
next
  case (Some t)
  then have g: "g\<lparr>priv_kdTree := Some t\<rparr> = g" by simp
  have "priv_kdTree (snd (lookUp near (g\<lparr>priv_kdTree := Some t\<rparr>) points arg2)) = Some t
   \<and> nextAddr (snd (lookUp near (g\<lparr>priv_kdTree := Some t\<rparr>) points arg2)) = nextAddr g
   \<and> (heap (snd (lookUp near (g\<lparr>priv_kdTree := Some t\<rparr>) points arg2)) a)(''distance'' := v) = (heap g a)(''distance'' := v)"
    by (simp add: lookUp_def Let_def priv_lookUp_Some series_tasks_frame split: jsval.split list.split)
  then show ?thesis unfolding g by (simp add: Some)
qed

text \<open>
  Claim C6, as the code has it. After any number of calls of \<open>lookUp\<close>, the tree is
  the one the geocoder had, no object has been created, and every object of the heap
  agrees with what it was in every property but \<open>distance\<close>: the twelve columns of
  every record are untouched. The one thing a query writes is the \<open>distance\<close>
  property of the records it returns.
\<close>

theorem C6_queries_write_only_distance:
  "priv_kdTree (lookUps near g calls) = priv_kdTree g
   \<and> nextAddr (lookUps near g calls) = nextAddr g
   \<and> (heap (lookUps near g calls) a)(''distance'' := v) = (heap g a)(''distance'' := v)"
proof (induction calls arbitrary: g)
  case Nil
  show ?case by simp
next
  case (Cons c calls)
  obtain points arg2 where c: "c = (points, arg2)" by (cases c)
  show ?case
    using Cons.IH [of "snd (lookUp near g points arg2)"] lookUp_frame [of near g points arg2 a v]
    by (simp add: c)
qed

text \<open>
  Claim C6 as stated fails. The record the index was built from has no \<open>distance\<close>
  property; after one lookup that returns it, the stored record itself carries the
  distance to that query's point.
\<close>

theorem C6_counterexample:
  "heap geocoderA 0 ''distance'' = Undefined
   \<and> heap (snd (lookUp nearest geocoderA (One (point 0 180)) (Some 1))) 0 ''distance'' = Number (6371 * pi)"
  by (simp add: lookUp_def priv_lookUp_def geocoderA_simps lookUpTask_def nearest_def
      createKdTree_def Let_def split_beta coords_lineA distanceFunc_examples)

section \<open>A call with one point\<close>

lemma lookUp_One:
  "lookUp near (g\<lparr>priv_kdTree := Some t\<rparr>) (One p) (Some K) =
     ((Null, Array (map (Ref \<circ> fst) (near t (heap g) p K))),
      g\<lparr>priv_kdTree := Some t, heap := fst (annotate (near t (heap g) p K) (heap g) [])\<rparr>)"
  by (simp add: lookUp_def priv_lookUp_Some series_task_Cons lookUpTask_snd del: series.simps(2))




text \<open>Called with two arguments, \<open>lookUp\<close> asks for one result.\<close>

lemma default_maxResults: "lookUp near g points None = lookUp near g points (Some 1)"
  by (simp add: lookUp_def)

section \<open>Lookups on the index as the spec describes it\<close>

lemma nearest_length: "length (nearest t h p K) = min K (length (tree_points t))"
  by (simp add: nearest_def min.commute)

lemma nearest_createKdTree_length:
  "length (nearest (createKdTree data m dims) h p K) = min K (length data)"
  by (simp add: nearest_length createKdTree_def)

lemma nearest_pairs:
  "(a, d) \<in> set (nearest t h p K) \<Longrightarrow> d = tree_metric t p (h a)"
  by (auto simp: nearest_def dest!: in_set_takeD)

text \<open>
  A call with one point: the records delivered carry the metric's distance from that
  point.
\<close>

lemma single_point_metric:
  "\<exists>zs ds g'. lookUp nearest (g\<lparr>priv_kdTree := Some t\<rparr>) (One p) (Some K) =
       ((Null, Array (map Ref zs)), g')
     \<and> map (\<lambda>a. heap g' a ''distance'') zs = map Number ds
     \<and> ds = map (\<lambda>a. tree_metric t p (heap g a)) zs"
proof -
  let ?rs = "nearest t (heap g) p K"
  let ?h' = "fst (annotate ?rs (heap g) [])"
  have pairs: "\<forall>(a, d) \<in> set ?rs. d = tree_metric t p (heap g a)"
    using nearest_pairs by fastforce
  have "?h' a ''distance'' = Number (tree_metric t p (heap g a))" if "a \<in> fst ` set ?rs" for a
    using annotate_distance [OF pairs that] .
  then have ann: "map (\<lambda>a. ?h' a ''distance'') (map fst ?rs) =
      map Number (map (\<lambda>a. tree_metric t p (heap g a)) (map fst ?rs))"
    by simp
  show ?thesis
  proof (intro exI conjI)
    show "lookUp nearest (g\<lparr>priv_kdTree := Some t\<rparr>) (One p) (Some K) =
       ((Null, Array (map Ref (map fst ?rs))), g\<lparr>priv_kdTree := Some t, heap := ?h'\<rparr>)"
      by (simp add: lookUp_One)
    show "map (\<lambda>a. heap (g\<lparr>priv_kdTree := Some t, heap := ?h'\<rparr>) a ''distance'') (map fst ?rs) =
       map Number (map (\<lambda>a. tree_metric t p (heap g a)) (map fst ?rs))"
      using ann by simp
    show "map (\<lambda>a. tree_metric t p (heap g a)) (map fst ?rs) =
       map (\<lambda>a. tree_metric t p (heap g a)) (map fst ?rs)" ..
  qed
qed

text \<open>
  With \<open>_distanceFunc\<close> as the tree's metric, as the geocoder builds it: after a call
  with one point every record delivered carries the haversine distance between the
  point and the record's coordinates.
\<close>

lemma single_point_haversine:
  "\<exists>zs g'. lookUp nearest (g\<lparr>priv_kdTree := Some (createKdTree data (priv_distanceFunc conv) dims)\<rparr>)
       (One p) (Some K) = ((Null, Array (map Ref zs)), g')
     \<and> map (\<lambda>a. heap g' a ''distance'') zs =
         map (\<lambda>a. Number (haversine_km
                (toNumber conv (p ''latitude'')) (toNumber conv (p ''longitude''))
                (toNumber conv (heap g a ''latitude'')) (toNumber conv (heap g a ''longitude'')))) zs"
proof -
  obtain zs ds g' where
    "lookUp nearest (g\<lparr>priv_kdTree := Some (createKdTree data (priv_distanceFunc conv) dims)\<rparr>)
       (One p) (Some K) = ((Null, Array (map Ref zs)), g')"
    and "map (\<lambda>a. heap g' a ''distance'') zs = map Number ds"
    and "ds = map (\<lambda>a. tree_metric (createKdTree data (priv_distanceFunc conv) dims) p (heap g a)) zs"
    using single_point_metric [where g = g and p = p and K = K
        and t = "createKdTree data (priv_distanceFunc conv) dims"]
    by blast
  then show ?thesis
    by (intro exI [of _ zs] exI [of _ g']) (simp add: createKdTree_def distanceFunc_haversine)
qed

lemma series_tasks_all:
  "list_all (\<lambda>r. \<exists>zs. r = Array (map Ref zs) \<and> length zs = min K (length data))
     (snd (fst (series (map (lookUpTask nearest (createKdTree data m dims) K) ps) h)))"
  by (induction ps arbitrary: h)
    (simp_all add: series_task_Cons nearest_createKdTree_length del: series.simps(2),
      metis length_map list.map_comp nearest_createKdTree_length)

text \<open>
  Claim C4. On an index built from the records \<open>data\<close>, a lookup of any point with any
  count \<open>K\<close> delivers a sequence of exactly \<open>min K (length data)\<close> records - all the
  records, and no error, when \<open>K\<close> exceeds their number. This holds for the sequence a
  call with one point hands its callback, and for the sequence of every point of a
  batch in the results of \<open>_lookUp\<close>.
\<close>

theorem C4_result_length:
  "(\<exists>zs g'. lookUp nearest (g\<lparr>priv_kdTree := Some (createKdTree data m dims)\<rparr>) (One p) (Some K) =
        ((Null, Array (map Ref zs)), g') \<and> length zs = min K (length data))
   \<and> (\<exists>rs g'. priv_lookUp nearest (g\<lparr>priv_kdTree := Some (createKdTree data m dims)\<rparr>) (Many ps) K =
        ((Null, Array rs), g') \<and> length rs = length ps
        \<and> list_all (\<lambda>r. \<exists>zs. r = Array (map Ref zs) \<and> length zs = min K (length data)) rs)"
proof
  have "map (Ref \<circ> fst) (nearest (createKdTree data m dims) (heap g) p K) =
        map Ref (map fst (nearest (createKdTree data m dims) (heap g) p K))"
    by simp
  then show "\<exists>zs g'. lookUp nearest (g\<lparr>priv_kdTree := Some (createKdTree data m dims)\<rparr>) (One p) (Some K) =
        ((Null, Array (map Ref zs)), g') \<and> length zs = min K (length data)"
    unfolding lookUp_One using nearest_createKdTree_length [of data m dims "heap g" p K]
    by (metis length_map)
next
  show "\<exists>rs g'. priv_lookUp nearest (g\<lparr>priv_kdTree := Some (createKdTree data m dims)\<rparr>) (Many ps) K =
        ((Null, Array rs), g') \<and> length rs = length ps
        \<and> list_all (\<lambda>r. \<exists>zs. r = Array (map Ref zs) \<and> length zs = min K (length data)) rs"
    by (simp add: priv_lookUp_Some series_tasks_length series_tasks_all)
qed

theorem C4_more_asked_than_stored_witness:
  "(\<exists>zs g'. lookUp nearest geocoderA (One (point 0 180)) (Some 5) = ((Null, Array (map Ref zs)), g')
      \<and> length zs = 1)
   \<and> fst (lookUp nearest geocoderA (One (point 0 180)) (Some 5)) = (Null, Array [Ref 0])"
proof -
  have "fst (lookUp nearest geocoderA (One (point 0 180)) (Some 5)) = (Null, Array [Ref 0])"
    by (simp add: lookUp_def priv_lookUp_def lookUpTask_def nearest_def
        createKdTree_def Let_def split_beta geocoderA_simps)
  then show ?thesis
    using C4_result_length [where g = geocoderA and data = "[0]"
        and m = "priv_distanceFunc readDigits" and dims = "[''latitude'', ''longitude'']"
        and p = "point 0 180" and K = 5 and ps = "[]"]
    by (simp add: geocoderA_tree [symmetric])
qed

lemma alloc_empty: "alloc [] h n = h"
proof
  fix a
  show "alloc [] h n a = h a" unfolding alloc_def by (cases "n \<le> a") auto
qed

lemma parse_empty:
  "priv_parseGeoNamesPostalCodesCsv conv [] g =
     g\<lparr>priv_kdTree := Some (createKdTree [] (priv_distanceFunc conv) [''latitude'', ''longitude''])\<rparr>"
  by (simp add: priv_parseGeoNamesPostalCodesCsv_def parseLines_def alloc_empty Let_def)

lemma nearest_empty: "nearest (createKdTree [] m dims) h p K = []"
  by (simp add: nearest_def createKdTree_def)

lemma series_tasks_empty:
  "series (map (lookUpTask nearest (createKdTree [] m dims) K) ps) h =
     ((Null, replicate (length ps) (Array [])), h)"
  by (induction ps arbitrary: h)
    (simp_all add: series_task_Cons lookUpTask_snd nearest_empty del: series.simps(2))

text \<open>
  Claim C8. On the index built from a file without lines, so from zero records, a
  lookup of any point, with any count or none, hands the callback a \<open>null\<close> error and
  the empty sequence; in a batch every point gets the empty sequence. Nothing is
  changed.
\<close>

theorem C8_empty_index:
  "lookUp nearest (priv_parseGeoNamesPostalCodesCsv conv [] g) (One p) arg2 =
     ((Null, Array []), priv_parseGeoNamesPostalCodesCsv conv [] g)
   \<and> priv_lookUp nearest (priv_parseGeoNamesPostalCodesCsv conv [] g) (Many ps) K =
     ((Null, Array (replicate (length ps) (Array []))), priv_parseGeoNamesPostalCodesCsv conv [] g)"
proof
  show "lookUp nearest (priv_parseGeoNamesPostalCodesCsv conv [] g) (One p) arg2 =
     ((Null, Array []), priv_parseGeoNamesPostalCodesCsv conv [] g)"
    unfolding parse_empty
    using series_tasks_empty [of _ _ _ "[p]"]
    by (simp add: lookUp_def priv_lookUp_Some del: series.simps(2))
next
  show "priv_lookUp nearest (priv_parseGeoNamesPostalCodesCsv conv [] g) (Many ps) K =
     ((Null, Array (replicate (length ps) (Array []))), priv_parseGeoNamesPostalCodesCsv conv [] g)"
    unfolding parse_empty
    by (simp add: priv_lookUp_Some series_tasks_empty)
qed

section \<open>Batches: what the code does\<close>

text \<open>
  For any tree: when the lookup of the second point of a batch returns a record, that
  record carries the second point's distance afterwards, whatever the lookup of the
  first point wrote to it - also where it stands in the first point's sequence.
\<close>

lemma batch_last_write_wins:
  assumes "near t (snd (lookUpTask near t K p1 (heap g))) p2 K = [(a, d2)]"
  shows "heap (snd (priv_lookUp near (g\<lparr>priv_kdTree := Some t\<rparr>) (Many [p1, p2]) K)) a ''distance'' =
         Number d2"
proof -
  have "snd (lookUpTask near t K p2 (snd (lookUpTask near t K p1 (heap g)))) a ''distance'' = Number d2"
    by (simp add: lookUpTask_snd [of near t K p2] assms)
  then show ?thesis
    by (simp add: priv_lookUp_Some series_task_Cons del: series.simps(2))
qed

text \<open>
  Claim C1, on the code. The index holds the records of \<open>lineA\<close> (address 0) and
  \<open>lineB\<close> (address 1); the batch asks for the record nearest to each of two points.
  \<open>_lookUp\<close> computes one sequence per point, \<open>[[0], [1]]\<close>. The callback of
  \<open>lookUp\<close> receives \<open>results[0]\<close>: the sequence of the first point alone, not the
  sequence of the two sequences.
\<close>

theorem C1_batch_delivers_first_only:
  "fst (priv_lookUp nearest geocoderAB (Many [point 0 0, point 0 180]) 1) =
     (Null, Array [Array [Ref 0], Array [Ref 1]])
   \<and> fst (lookUp nearest geocoderAB (Many [point 0 0, point 0 180]) (Some 1)) =
     (Null, Array [Ref 0])"
  by (simp add: lookUp_def priv_lookUp_def lookUpTask_def nearest_def
      createKdTree_def Let_def split_beta geocoderAB_simps distanceFunc_examples distanceFunc_distance not_le)

text \<open>
  Claim C5, on the code. The index holds the record of \<open>lineA\<close> alone, at latitude 0
  and longitude 0; both points of the batch get it. The record delivered for the first
  point, which lies on it at distance 0, carries the distance \<open>6371 \<pi>\<close> of the second
  point, written by the second point's lookup.
\<close>

theorem C5_batch_distance_of_other_point:
  "fst (lookUp nearest geocoderA (Many [point 0 0, point 0 180]) (Some 1)) = (Null, Array [Ref 0])
   \<and> heap (snd (lookUp nearest geocoderA (Many [point 0 0, point 0 180]) (Some 1))) 0 ''distance'' =
       Number (6371 * pi)
   \<and> priv_distanceFunc readDigits (point 0 0)
        (heap (snd (lookUp nearest geocoderA (Many [point 0 0, point 0 180]) (Some 1))) 0) = 0
   \<and> priv_distanceFunc readDigits (point 0 180)
        (heap (snd (lookUp nearest geocoderA (Many [point 0 0, point 0 180]) (Some 1))) 0) = 6371 * pi"
  by (simp add: lookUp_def priv_lookUp_def lookUpTask_def nearest_def
      createKdTree_def Let_def split_beta geocoderA_simps distanceFunc_examples distanceFunc_distance not_le)

end
